theory Spec2Isabelle
  imports Complex_Main "HOL-Library.Char_ord" "HOL-Library.List_Lexorder" "HOL-Library.Multiset"
begin

section \<open>Conventions of the embedding\<close>

text \<open>
  The Go sources compute with \<^verbatim>\<open>float64\<close>. The embedding computes with \<^typ>\<open>real\<close>:
  every property below is the exact statement over the reals, of which the floating-point
  program is an approximation. A Go slice is a list, a slice of slices a list of lists.
  An index read outside a slice panics in Go; wherever the source can reach such a read the
  model returns \<open>Inl IndexOutOfRange\<close>. Infinities and NaN have no counterpart in
  \<^typ>\<open>real\<close>: where the source would produce one from finite input (the division
  \<^verbatim>\<open>1.0 / sum\<close> for a sequence without labels) the value of the model means nothing, and
  no statement below is about such an input. The one infinity that the source writes itself,
  \<^verbatim>\<open>math.Inf(-1)\<close> in the decoder, is modelled.
\<close>

datatype panic = IndexOutOfRange

text \<open>
  \<^verbatim>\<open>var s float64; for i := range L { s += f(i) }\<close>: the accumulation loops of the sources.
\<close>

definition sum_over :: "nat \<Rightarrow> (nat \<Rightarrow> real) \<Rightarrow> real" where
  "sum_over L f = sum_list (map f [0..<L])"

section \<open>crf: forward-backward (src/unnamed/part\_011)\<close>

record ForwardBackwardResult =
  LogZ :: real
  Marginals :: "real list list"
  Alpha :: "real list list"
  Beta :: "real list list"
  Scale :: "real list"

text \<open>The Go zero value \<^verbatim>\<open>ForwardBackwardResult{}\<close>, returned for \<open>T = 0\<close>.\<close>

definition empty_result :: ForwardBackwardResult where
  "empty_result = \<lparr>LogZ = 0, Marginals = [], Alpha = [], Beta = [], Scale = []\<rparr>"

text \<open>
  The two precomputation loops read \<open>stateScores[t][y]\<close> for all \<open>t < T\<close>, \<open>y < L\<close> and
  \<open>transScores[i][j]\<close> for all \<open>i, j < L\<close>, where \<open>L = len(stateScores[0])\<close>. These are
  the only reads of the arguments, so the call panics exactly when one of them is out of
  range.
\<close>

definition scores_in_range :: "nat \<Rightarrow> real list list \<Rightarrow> real list list \<Rightarrow> bool" where
  "scores_in_range L stateScores transScores \<longleftrightarrow>
     list_all (\<lambda>row. L \<le> length row) stateScores \<and>
     (L = 0 \<or> (L \<le> length transScores \<and> list_all (\<lambda>row. L \<le> length row) (take L transScores)))"

definition exp_matrix :: "nat \<Rightarrow> real list list \<Rightarrow> real list list" where
  "exp_matrix L m = map (\<lambda>row. map (\<lambda>y. exp (row ! y)) [0..<L]) m"

text \<open>Position \<open>t = 0\<close> of the forward pass: \<open>alpha[0]\<close> and \<open>scale[0] = 1.0 / sum\<close>.\<close>

definition forward_init :: "nat \<Rightarrow> real list \<Rightarrow> real list \<times> real" where
  "forward_init L expState0 =
     (let a = map (\<lambda>y. expState0 ! y) [0..<L];
          s = 1 / sum_list a
      in (map (\<lambda>v. v * s) a, s))"

text \<open>
  One iteration \<open>t \<ge> 1\<close> of the forward pass, from \<open>alpha[t-1]\<close> and \<open>expState[t]\<close>,
  with the guard \<open>sum == 0\<close> of the source.
\<close>

definition forward_step :: "nat \<Rightarrow> real list list \<Rightarrow> real list \<Rightarrow> real list \<Rightarrow> real list \<times> real" where
  "forward_step L expTrans prev expState_t =
     (let a = map (\<lambda>y. sum_over L (\<lambda>yp. prev ! yp * expTrans ! yp ! y) * expState_t ! y) [0..<L];
          total = sum_list a;
          s = (if total = 0 then 1 else 1 / total)
      in (map (\<lambda>v. v * s) a, s))"

text \<open>The loop \<open>for t := 1; t < T; t++\<close>: the rows still to do, the previous \<open>alpha\<close> carried along.\<close>

fun forward_loop :: "nat \<Rightarrow> real list list \<Rightarrow> real list \<Rightarrow> real list list \<Rightarrow> (real list \<times> real) list" where
  "forward_loop L expTrans prev [] = []"
| "forward_loop L expTrans prev (r # rs) =
     (let as = forward_step L expTrans prev r
      in as # forward_loop L expTrans (fst as) rs)"

text \<open>
  The backward pass, over the rows \<open>(expState[t], scale[t])\<close> from some position to the end:
  \<open>beta[T-1][y] = scale[T-1]\<close>, and \<open>beta[t]\<close> from \<open>beta[t+1]\<close>, \<open>expState[t+1]\<close> and \<open>scale[t]\<close>.
\<close>

fun backward_loop :: "nat \<Rightarrow> real list list \<Rightarrow> (real list \<times> real) list \<Rightarrow> real list list" where
  "backward_loop L expTrans [] = []"
| "backward_loop L expTrans [(r, s)] = [replicate L s]"
| "backward_loop L expTrans ((r, s) # (r', s') # rest) =
     (let bs = backward_loop L expTrans ((r', s') # rest);
          b1 = hd bs
      in map (\<lambda>y. sum_over L (\<lambda>yn. expTrans ! y ! yn * r' ! yn * b1 ! yn) * s) [0..<L] # bs)"

definition marginal_row :: "nat \<Rightarrow> real list \<Rightarrow> real list \<Rightarrow> real \<Rightarrow> real list" where
  "marginal_row L a b s = map (\<lambda>y. a ! y * b ! y / s) [0..<L]"

definition ForwardBackward :: "real list list \<Rightarrow> real list list \<Rightarrow> panic + ForwardBackwardResult" where
  "ForwardBackward stateScores transScores =
     (if length stateScores = 0 then Inr empty_result
      else let L = length (stateScores ! 0) in
        if \<not> scores_in_range L stateScores transScores then Inl IndexOutOfRange
        else let
          expState = exp_matrix L stateScores;
          expTrans = exp_matrix L (take L transScores);
          a0 = forward_init L (expState ! 0);
          fw = a0 # forward_loop L expTrans (fst a0) (tl expState);
          alpha = map fst fw;
          scale = map snd fw;
          beta = backward_loop L expTrans (zip expState scale);
          logZ = foldl (\<lambda>z s. z - ln s) 0 scale;
          marginals = map (\<lambda>(a, b, s). marginal_row L a b s) (zip alpha (zip beta scale))
        in Inr \<lparr>LogZ = logZ, Marginals = marginals, Alpha = alpha, Beta = beta, Scale = scale\<rparr>)"

subsection \<open>Brute-force enumeration of label paths\<close>




subsection \<open>Forward-backward: the log-partition function\<close>


lemma sum_list_nth_upt: "length v = L \<Longrightarrow> sum_list v = (\<Sum>y<L. v ! y)"
  by (metis atLeast0LessThan sum_list_sum_nth)












































subsection \<open>Forward-backward: the marginals\<close>












section \<open>crf: Viterbi decoding (src/crf/crf.go)\<close>

text \<open>
  The values of \<^verbatim>\<open>float64\<close> that the decoder handles: finite scores and the initial
  \<^verbatim>\<open>math.Inf(-1)\<close> of every maximum scan.
\<close>

datatype xreal = NegInf | Fin real

text \<open>\<open>a + b\<close> for a possibly infinite \<open>a\<close> and a finite \<open>b\<close>.\<close>

fun xadd :: "xreal \<Rightarrow> real \<Rightarrow> xreal" where
  "xadd NegInf b = NegInf"
| "xadd (Fin a) b = Fin (a + b)"

text \<open>The comparison \<open>a > b\<close>.\<close>

fun xgt :: "xreal \<Rightarrow> xreal \<Rightarrow> bool" where
  "xgt (Fin a) (Fin b) \<longleftrightarrow> a > b"
| "xgt (Fin a) NegInf \<longleftrightarrow> True"
| "xgt NegInf b \<longleftrightarrow> False"

text \<open>
  The maximum scan
  \<^verbatim>\<open>best := math.Inf(-1); arg := 0; for y := range L { if f(y) > best { best = f(y); arg = y } }\<close>.
\<close>

definition best_scan :: "nat \<Rightarrow> (nat \<Rightarrow> xreal) \<Rightarrow> xreal \<times> nat" where
  "best_scan L f =
     foldl (\<lambda>(bestScore, bestArg) y. if xgt (f y) bestScore then (f y, y) else (bestScore, bestArg))
       (NegInf, 0) [0..<L]"

text \<open>One iteration \<open>t \<ge> 1\<close>: \<open>(delta[t], psi[t])\<close> from \<open>delta[t-1]\<close> and \<open>stateScores[t]\<close>.\<close>

definition viterbi_step :: "nat \<Rightarrow> real list list \<Rightarrow> xreal list \<Rightarrow> real list \<Rightarrow> xreal list \<times> nat list" where
  "viterbi_step L transScores prev row =
     (let cells = map (\<lambda>y. let (bestScore, bestPrev) =
                                best_scan L (\<lambda>yp. xadd (prev ! yp) (transScores ! yp ! y))
                            in (xadd bestScore (row ! y), bestPrev)) [0..<L]
      in (map fst cells, map snd cells))"

fun viterbi_loop :: "nat \<Rightarrow> real list list \<Rightarrow> xreal list \<Rightarrow> real list list \<Rightarrow> (xreal list \<times> nat list) list" where
  "viterbi_loop L transScores prev [] = []"
| "viterbi_loop L transScores prev (r # rs) =
     (let dp = viterbi_step L transScores prev r
      in dp # viterbi_loop L transScores (fst dp) rs)"

text \<open>
  Backtracking, \<open>path[T-1] = bestLabel\<close> and \<open>path[t] = psi[t+1][path[t+1]]\<close>, over the
  back-pointer rows \<open>psi[1], \<dots>, psi[T-1]\<close>.
\<close>

fun backtrack :: "nat list list \<Rightarrow> nat \<Rightarrow> nat list" where
  "backtrack [] bestLabel = [bestLabel]"
| "backtrack (psi # psis) bestLabel =
     (let path = backtrack psis bestLabel in (psi ! hd path) # path)"

text \<open>
  For \<open>T = 1\<close> nothing but \<open>stateScores[0]\<close> is read. For \<open>T \<ge> 2\<close> the loop reads
  \<open>stateScores[t][y]\<close> and \<open>transScores[yp][y]\<close> for all \<open>yp, y < L\<close>, and with \<open>L = 0\<close>
  backtracking reads \<open>psi[t+1][0]\<close> of an empty row.
\<close>

definition viterbi_in_range :: "nat \<Rightarrow> real list list \<Rightarrow> real list list \<Rightarrow> bool" where
  "viterbi_in_range L stateScores transScores \<longleftrightarrow>
     length stateScores = 1 \<or>
     (0 < L \<and> list_all (\<lambda>row. L \<le> length row) stateScores \<and>
      L \<le> length transScores \<and> list_all (\<lambda>row. L \<le> length row) (take L transScores))"

definition Viterbi :: "real list list \<Rightarrow> real list list \<Rightarrow> panic + (nat list \<times> xreal)" where
  "Viterbi stateScores transScores =
     (if length stateScores = 0 then Inr ([], NegInf)
      else let L = length (stateScores ! 0) in
        if \<not> viterbi_in_range L stateScores transScores then Inl IndexOutOfRange
        else let
          delta0 = map (\<lambda>y. Fin (stateScores ! 0 ! y)) [0..<L];
          steps = viterbi_loop L transScores delta0 (tl stateScores);
          deltaLast = last (delta0 # map fst steps);
          (bestScore, bestLabel) = best_scan L (\<lambda>y. deltaLast ! y);
          path = backtrack (map snd steps) bestLabel
        in Inr (path, bestScore))"



subsection \<open>Viterbi returns the first optimal path\<close>

















text \<open>
  Two paths of score \<open>1\<close>, \<open>[0, 1]\<close> and \<open>[1, 0]\<close>: the decoder returns the one with the
  smaller last label.
\<close>

lemma Viterbi_tie_example:
  "Viterbi [[0, 0], [0, 0]] [[0, 1], [1, 0]] = Inr ([1, 0], Fin 1)"
  by (simp add: Viterbi_def viterbi_in_range_def viterbi_step_def best_scan_def Let_def)



section \<open>crf: alphabets and the model (src/crf/crf.go)\<close>

record Alphabet =
  ToID :: "(string \<times> nat) list"
  ToStr :: "string list"

definition NewAlphabet :: Alphabet where
  "NewAlphabet = \<lparr>ToID = [], ToStr = []\<rparr>"

text \<open>\<open>Add\<close> returns the id; the trainer only uses the updated alphabet.\<close>

definition Add :: "Alphabet \<Rightarrow> string \<Rightarrow> Alphabet \<times> nat" where
  "Add a s =
     (case map_of (ToID a) s of
        Some i \<Rightarrow> (a, i)
      | None \<Rightarrow> (a\<lparr>ToID := ToID a @ [(s, length (ToStr a))], ToStr := ToStr a @ [s]\<rparr>,
                 length (ToStr a)))"

definition Get :: "Alphabet \<Rightarrow> string \<Rightarrow> int" where
  "Get a s = (case map_of (ToID a) s of Some i \<Rightarrow> int i | None \<Rightarrow> - 1)"

definition Size :: "Alphabet \<Rightarrow> nat" where
  "Size a = length (ToStr a)"

record Model =
  Labels :: Alphabet
  Attributes :: Alphabet
  Weights :: "real list"
  NumLabels :: nat

definition NewModel :: Model where
  "NewModel = \<lparr>Labels = NewAlphabet, Attributes = NewAlphabet, Weights = [], NumLabels = 0\<rparr>"

definition TransOffset :: "Model \<Rightarrow> nat" where
  "TransOffset m = Size (Attributes m) * NumLabels m"

definition NumWeights :: "Model \<Rightarrow> nat" where
  "NumWeights m = TransOffset m + NumLabels m * NumLabels m"

text \<open>A position's feature dict \<^verbatim>\<open>map[string]float64\<close> is an association list.\<close>

record TrainingSequence =
  Features :: "(string \<times> real) list list"
  SeqLabels :: "string list"
  Group :: int

definition BuildLabelAlphabet :: "TrainingSequence list \<Rightarrow> Alphabet" where
  "BuildLabelAlphabet sequences =
     foldl (\<lambda>alpha seq. foldl (\<lambda>alpha label. fst (Add alpha label)) alpha (SeqLabels seq))
       NewAlphabet sequences"

definition BuildAttributeAlphabet :: "TrainingSequence list \<Rightarrow> Alphabet" where
  "BuildAttributeAlphabet sequences =
     foldl (\<lambda>alpha seq.
              foldl (\<lambda>alpha feats. foldl (\<lambda>alpha (attr, val). fst (Add alpha attr)) alpha feats)
                alpha (Features seq))
       NewAlphabet sequences"

section \<open>crf: pairwise marginals (src/unnamed/part\_011)\<close>

definition TransitionMarginals ::
    "ForwardBackwardResult \<Rightarrow> real list list \<Rightarrow> real list list \<Rightarrow> real list list list" where
  "TransitionMarginals fb stateScores transScores =
     (let T = length stateScores in
      if T \<le> 1 then []
      else let L = length (stateScores ! 0);
               expState = exp_matrix L stateScores;
               expTrans = exp_matrix L (take L transScores)
           in map (\<lambda>t. map (\<lambda>i. map (\<lambda>j. Alpha fb ! t ! i * expTrans ! i ! j *
                                            expState ! (t + 1) ! j * Beta fb ! (t + 1) ! j)
                                      [0..<L]) [0..<L]) [0..<T - 1])"

section \<open>crf: the OWL-QN trainer (src/crf/crf.go)\<close>

record TrainerConfig =
  C1 :: real
  C2 :: real
  MaxIterations :: int
  AllPossibleTransitions :: bool
  Epsilon :: real
  Verbose :: bool

definition DefaultTrainerConfig :: TrainerConfig where
  "DefaultTrainerConfig =
     \<lparr>C1 = 1655 / 10000, C2 = 236 / 10000, MaxIterations = 100,
      AllPossibleTransitions = True, Epsilon = 1 / 100000, Verbose = False\<rparr>"

text \<open>The internal sequence: \<open>(attrID, value)\<close> entries per position and label ids.\<close>

record internalSeq =
  features :: "(int \<times> real) list list"
  labels :: "int list"

text \<open>
  The conversion reads \<open>seq.Labels[t]\<close> for every \<open>t < len(seq.Features)\<close>: a sequence with
  fewer labels than positions panics.
\<close>

definition to_internal :: "Model \<Rightarrow> TrainingSequence \<Rightarrow> panic + internalSeq" where
  "to_internal model seq =
     (let T = length (Features seq) in
      if length (SeqLabels seq) < T then Inl IndexOutOfRange
      else Inr \<lparr>features =
                  map (\<lambda>feats. map (\<lambda>(attr, val). (Get (Attributes model) attr, val))
                                 (filter (\<lambda>(attr, val). Get (Attributes model) attr \<ge> 0) feats))
                      (Features seq),
                labels = map (\<lambda>t. Get (Labels model) (SeqLabels seq ! t)) [0..<T]\<rparr>)"

fun all_internal :: "Model \<Rightarrow> TrainingSequence list \<Rightarrow> panic + internalSeq list" where
  "all_internal model [] = Inr []"
| "all_internal model (seq # seqs) =
     (case to_internal model seq of
        Inl p \<Rightarrow> Inl p
      | Inr is \<Rightarrow> (case all_internal model seqs of Inl p \<Rightarrow> Inl p | Inr iss \<Rightarrow> Inr (is # iss)))"

text \<open>\<open>grad[i] += d\<close>.\<close>

definition add_at :: "real list \<Rightarrow> nat \<Rightarrow> real \<Rightarrow> real list" where
  "add_at g i d = g[i := g ! i + d]"

definition state_scores :: "nat \<Rightarrow> real list \<Rightarrow> internalSeq \<Rightarrow> real list list" where
  "state_scores L w is =
     map (\<lambda>feats. foldl (\<lambda>row (attrID, value).
                            map (\<lambda>y. row ! y + w ! (nat attrID * L + y) * value) [0..<L])
                     (replicate L 0) feats)
       (features is)"

definition trans_scores :: "nat \<Rightarrow> nat \<Rightarrow> real list \<Rightarrow> real list list" where
  "trans_scores L transOffset w =
     map (\<lambda>i. map (\<lambda>j. w ! (transOffset + i * L + j)) [0..<L]) [0..<L]"

definition gold_score :: "real list list \<Rightarrow> real list list \<Rightarrow> int list \<Rightarrow> real" where
  "gold_score stateScores transScores lab =
     foldl (\<lambda>g t. let y = nat (lab ! t);
                       g = g + stateScores ! t ! y
                   in if t > 0 then g + transScores ! nat (lab ! (t - 1)) ! y else g)
       0 [0..<length stateScores]"

text \<open>The gradient of one sequence: empirical counts subtracted, model expectations added.\<close>

definition state_gradient ::
    "nat \<Rightarrow> ForwardBackwardResult \<Rightarrow> internalSeq \<Rightarrow> real list \<Rightarrow> real list" where
  "state_gradient L fb is grad =
     foldl (\<lambda>grad t.
              let goldY = nat (labels is ! t) in
              foldl (\<lambda>grad (attrID, value).
                       let grad = add_at grad (nat attrID * L + goldY) (- value)
                       in foldl (\<lambda>grad y. add_at grad (nat attrID * L + y) (Marginals fb ! t ! y * value))
                            grad [0..<L])
                grad (features is ! t))
       grad [0..<length (features is)]"

definition trans_gradient ::
    "nat \<Rightarrow> nat \<Rightarrow> real list list list \<Rightarrow> internalSeq \<Rightarrow> real list \<Rightarrow> real list" where
  "trans_gradient L transOffset transMarg is grad =
     foldl (\<lambda>grad t.
              let yp = nat (labels is ! t); y = nat (labels is ! (t + 1));
                  grad = add_at grad (transOffset + yp * L + y) (- 1)
              in foldl (\<lambda>grad i. foldl (\<lambda>grad j. add_at grad (transOffset + i * L + j) (transMarg ! t ! i ! j))
                                    grad [0..<L])
                   grad [0..<L])
       grad [0..<length (features is) - 1]"

text \<open>
  One sequence of the gradient loops: the negative log-likelihood contribution and the
  updated gradient. Empty sequences are skipped.
\<close>

definition sequence_gradient ::
    "nat \<Rightarrow> nat \<Rightarrow> real list \<Rightarrow> internalSeq \<Rightarrow> real \<times> real list \<Rightarrow> panic + (real \<times> real list)" where
  "sequence_gradient L transOffset w is acc =
     (let T = length (features is) in
      if T = 0 then Inr acc
      else let stateScores = state_scores L w is;
               transScores = trans_scores L transOffset w
           in case ForwardBackward stateScores transScores of
                Inl p \<Rightarrow> Inl p
              | Inr fb \<Rightarrow>
                  let nll = fst acc + (- gold_score stateScores transScores (labels is) + LogZ fb);
                      grad = state_gradient L fb is (snd acc);
                      grad = (if T > 1
                              then trans_gradient L transOffset
                                     (TransitionMarginals fb stateScores transScores) is grad
                              else grad)
                  in Inr (nll, grad))"

fun fold_sequences :: "('a \<Rightarrow> 'b \<Rightarrow> panic + 'b) \<Rightarrow> 'a list \<Rightarrow> 'b \<Rightarrow> panic + 'b" where
  "fold_sequences f [] acc = Inr acc"
| "fold_sequences f (x # xs) acc =
     (case f x acc of Inl p \<Rightarrow> Inl p | Inr acc' \<Rightarrow> fold_sequences f xs acc')"

text \<open>The smooth L2 term on objective and gradient, the L1 term on the objective only.\<close>

definition add_l2_gradient :: "TrainerConfig \<Rightarrow> real list \<Rightarrow> real list \<Rightarrow> real list" where
  "add_l2_gradient config w grad =
     (if C2 config > 0 then map (\<lambda>i. grad ! i + C2 config * w ! i) [0..<length w] else grad)"

definition regularizer :: "TrainerConfig \<Rightarrow> real list \<Rightarrow> real" where
  "regularizer config w =
     (if C2 config > 0 then 0.5 * C2 config * sum_list (map (\<lambda>v. v * v) w) else 0) +
     (if C1 config > 0 then sum_list (map (\<lambda>v. C1 config * \<bar>v\<bar>) w) else 0)"

text \<open>The objective closure handed to the line search.\<close>

definition sequence_objective ::
    "nat \<Rightarrow> nat \<Rightarrow> real list \<Rightarrow> internalSeq \<Rightarrow> real \<Rightarrow> panic + real" where
  "sequence_objective L transOffset wNew is obj =
     (let T = length (features is) in
      if T = 0 then Inr obj
      else let stateScores = state_scores L wNew is;
               transScores = trans_scores L transOffset wNew
           in case ForwardBackward stateScores transScores of
                Inl p \<Rightarrow> Inl p
              | Inr fb \<Rightarrow> Inr (obj + (- gold_score stateScores transScores (labels is) + LogZ fb)))"

definition objective ::
    "TrainerConfig \<Rightarrow> nat \<Rightarrow> nat \<Rightarrow> internalSeq list \<Rightarrow> real list \<Rightarrow> panic + real" where
  "objective config L transOffset internals wNew =
     (case fold_sequences (sequence_objective L transOffset wNew) internals 0 of
        Inl p \<Rightarrow> Inl p
      | Inr obj \<Rightarrow> Inr (obj + regularizer config wNew))"

text \<open>The pseudo-gradient of the L1 term.\<close>

definition pseudo_gradient :: "TrainerConfig \<Rightarrow> real list \<Rightarrow> real list \<Rightarrow> real list" where
  "pseudo_gradient config w grad =
     map (\<lambda>i. if w ! i > 0 then grad ! i + C1 config
               else if w ! i < 0 then grad ! i - C1 config
               else if grad ! i + C1 config < 0 then grad ! i + C1 config
               else if grad ! i - C1 config > 0 then grad ! i - C1 config
               else 0)
       [0..<length w]"

subsection \<open>L-BFGS memory and two-loop recursion\<close>

record lbfgs =
  lb_n :: nat
  lb_m :: nat
  lb_s :: "real list list"
  lb_y :: "real list list"
  lb_rho :: "real list"
  lb_k :: int
  lb_size :: nat

definition newLBFGS :: "nat \<Rightarrow> nat \<Rightarrow> lbfgs" where
  "newLBFGS n m =
     \<lparr>lb_n = n, lb_m = m, lb_s = replicate m [], lb_y = replicate m [], lb_rho = replicate m 0,
      lb_k = 0, lb_size = 0\<rparr>"

definition dot :: "real list \<Rightarrow> real list \<Rightarrow> real" where
  "dot a b = sum_over (length a) (\<lambda>i. a ! i * b ! i)"

text \<open>\<^verbatim>\<open>q := make([]float64, n); copy(q, src)\<close>.\<close>

definition copy_into :: "nat \<Rightarrow> real list \<Rightarrow> real list" where
  "copy_into n src = take n src @ replicate (n - length src) 0"

text \<open>Go's \<^verbatim>\<open>%\<close> truncates towards zero; the source then adds \<open>m\<close> to a negative remainder.\<close>

definition slot :: "int \<Rightarrow> nat \<Rightarrow> nat" where
  "slot a m =
     (let r = sgn a * (\<bar>a\<bar> mod int m) in nat (if r < 0 then r + int m else r))"

definition lbfgs_update :: "lbfgs \<Rightarrow> real list \<Rightarrow> real list \<Rightarrow> lbfgs" where
  "lbfgs_update l s y =
     (let sy = dot s y in
      if sy \<le> 0 then l
      else let idx = slot (lb_k l) (lb_m l)
           in l\<lparr>lb_s := (lb_s l)[idx := copy_into (lb_n l) s],
                lb_y := (lb_y l)[idx := copy_into (lb_n l) y],
                lb_rho := (lb_rho l)[idx := 1 / sy],
                lb_k := lb_k l + 1,
                lb_size := (if lb_size l < lb_m l then lb_size l + 1 else lb_size l)\<rparr>)"

text \<open>First loop, \<open>i = size - 1\<close> down to \<open>0\<close>: the coefficients \<open>alpha[i]\<close> and the updated \<open>q\<close>.\<close>

fun first_loop :: "lbfgs \<Rightarrow> nat \<Rightarrow> real list \<times> real list \<Rightarrow> real list \<times> real list" where
  "first_loop l 0 (alpha, q) = (alpha, q)"
| "first_loop l (Suc i) (alpha, q) =
     (let idx = slot (lb_k l - 1 - (int (lb_size l) - 1 - int i)) (lb_m l);
          a = lb_rho l ! idx * dot (lb_s l ! idx) q
      in first_loop l i (alpha[i := a], map (\<lambda>j. q ! j - a * lb_y l ! idx ! j) [0..<lb_n l]))"

definition second_loop :: "lbfgs \<Rightarrow> real list \<Rightarrow> real list \<Rightarrow> real list" where
  "second_loop l alpha q =
     foldl (\<lambda>q i. let idx = slot (lb_k l - int (lb_size l) + int i) (lb_m l);
                       beta = lb_rho l ! idx * dot (lb_y l ! idx) q
                   in map (\<lambda>j. q ! j + (alpha ! i - beta) * lb_s l ! idx ! j) [0..<lb_n l])
       q [0..<lb_size l]"

definition computeDirection :: "lbfgs \<Rightarrow> real list \<Rightarrow> real list" where
  "computeDirection l pg =
     (let q = copy_into (lb_n l) pg in
      if lb_size l = 0 then map uminus q
      else let (alpha, q) = first_loop l (lb_size l) (replicate (lb_size l) 0, q);
               latestIdx = slot (lb_k l - 1) (lb_m l);
               yy = dot (lb_y l ! latestIdx) (lb_y l ! latestIdx);
               q = (if yy > 0
                    then let gamma = dot (lb_s l ! latestIdx) (lb_y l ! latestIdx) / yy
                         in map (\<lambda>v. v * gamma) q
                    else q);
               q = second_loop l alpha q
           in map uminus q)"

subsection \<open>The backtracking line search\<close>

text \<open>Trial point: \<open>w + step * dir\<close>, with components that change sign set to \<open>0\<close> when \<open>c1 > 0\<close>.\<close>

definition trial_point :: "real list \<Rightarrow> real list \<Rightarrow> real \<Rightarrow> nat \<Rightarrow> real \<Rightarrow> real list" where
  "trial_point w dir step n c1 =
     map (\<lambda>i. let v = w ! i + step * dir ! i
               in if c1 > 0 \<and> v * w ! i < 0 then 0 else v) [0..<n]"

text \<open>
  \<^verbatim>\<open>for trial := 0; trial < 20; trial++\<close> with the remaining number of trials as the argument:
  return the step on sufficient decrease, halve it otherwise; after the loop, \<^verbatim>\<open>return step\<close>.
\<close>

fun line_search_loop ::
    "nat \<Rightarrow> real list \<Rightarrow> real list \<Rightarrow> real \<Rightarrow> real \<Rightarrow> (real list \<Rightarrow> panic + real) \<Rightarrow> nat \<Rightarrow> real \<Rightarrow> real
       \<Rightarrow> panic + real" where
  "line_search_loop 0 w dir fVal dirDeriv objFunc n c1 step = Inr step"
| "line_search_loop (Suc trials) w dir fVal dirDeriv objFunc n c1 step =
     (case objFunc (trial_point w dir step n c1) of
        Inl p \<Rightarrow> Inl p
      | Inr fNew \<Rightarrow>
          if fNew \<le> fVal + (1 / 10000) * step * dirDeriv then Inr step
          else line_search_loop trials w dir fVal dirDeriv objFunc n c1 (step * 0.5))"

definition owlqnLineSearch ::
    "real list \<Rightarrow> real list \<Rightarrow> real \<Rightarrow> real list \<Rightarrow> (real list \<Rightarrow> panic + real) \<Rightarrow> nat \<Rightarrow> real
       \<Rightarrow> panic + real" where
  "owlqnLineSearch w dir fVal pg objFunc n c1 =
     (let dirDeriv = dot dir pg in
      if dirDeriv \<ge> 0 then Inr 0
      else line_search_loop 20 w dir fVal dirDeriv objFunc n c1 1)"

subsection \<open>The training loop\<close>

text \<open>The pair of objective value and gradient at \<open>w\<close>, regularised.\<close>

definition objective_and_gradient ::
    "TrainerConfig \<Rightarrow> nat \<Rightarrow> nat \<Rightarrow> internalSeq list \<Rightarrow> real list \<Rightarrow> panic + (real \<times> real list)" where
  "objective_and_gradient config L transOffset internals w =
     (case fold_sequences (sequence_gradient L transOffset w) internals (0, replicate (length w) 0) of
        Inl p \<Rightarrow> Inl p
      | Inr (nll, grad) \<Rightarrow> Inr (nll + regularizer config w, add_l2_gradient config w grad))"

datatype iteration_result = Break "real list" | Continue "real list" lbfgs

text \<open>
  The body of the loop \<^verbatim>\<open>for iter := range config.MaxIterations\<close>. The source recomputes
  the gradient at the new point with a third copy of the gradient loops; the model calls the
  same function and drops the objective value.
\<close>

definition train_iteration ::
    "TrainerConfig \<Rightarrow> nat \<Rightarrow> nat \<Rightarrow> internalSeq list \<Rightarrow> real list \<Rightarrow> lbfgs \<Rightarrow> panic + iteration_result" where
  "train_iteration config L transOffset internals w lb =
     (let numWeights = length w in
      case objective_and_gradient config L transOffset internals w of
        Inl p \<Rightarrow> Inl p
      | Inr (nll, grad) \<Rightarrow>
          let pg = pseudo_gradient config w grad;
              dir0 = computeDirection lb pg;
              dir = map (\<lambda>i. if dir0 ! i * pg ! i > 0 then 0 else dir0 ! i) [0..<numWeights]
          in case owlqnLineSearch w dir nll pg (objective config L transOffset internals) numWeights (C1 config) of
               Inl p \<Rightarrow> Inl p
             | Inr step \<Rightarrow>
                 if step = 0 then Inr (Break w)
                 else let prevW = w;
                          w = map (\<lambda>i. w ! i + step * dir ! i) [0..<numWeights];
                          w = (if C1 config > 0
                               then map (\<lambda>i. if w ! i * prevW ! i < 0 then 0 else w ! i) [0..<numWeights]
                               else w);
                          s = map (\<lambda>i. w ! i - prevW ! i) [0..<numWeights]
                      in case objective_and_gradient config L transOffset internals w of
                           Inl p \<Rightarrow> Inl p
                         | Inr (nll', newGrad) \<Rightarrow>
                             let newPG = pseudo_gradient config w newGrad;
                                 y = map (\<lambda>i. newPG ! i - pg ! i) [0..<numWeights];
                                 lb = lbfgs_update lb s y;
                                 maxGrad = foldl (\<lambda>mx g. if \<bar>g\<bar> > mx then \<bar>g\<bar> else mx) 0 newPG
                             in if maxGrad < Epsilon config then Inr (Break w)
                                else Inr (Continue w lb))"

fun train_loop ::
    "nat \<Rightarrow> TrainerConfig \<Rightarrow> nat \<Rightarrow> nat \<Rightarrow> internalSeq list \<Rightarrow> real list \<Rightarrow> lbfgs \<Rightarrow> panic + real list" where
  "train_loop 0 config L transOffset internals w lb = Inr w"
| "train_loop (Suc iters) config L transOffset internals w lb =
     (case train_iteration config L transOffset internals w lb of
        Inl p \<Rightarrow> Inl p
      | Inr (Break w') \<Rightarrow> Inr w'
      | Inr (Continue w' lb') \<Rightarrow> train_loop iters config L transOffset internals w' lb')"

definition Train :: "TrainingSequence list \<Rightarrow> TrainerConfig \<Rightarrow> panic + Model" where
  "Train sequences config =
     (let model = NewModel\<lparr>Labels := BuildLabelAlphabet sequences,
                           Attributes := BuildAttributeAlphabet sequences\<rparr>;
          model = model\<lparr>NumLabels := Size (Labels model)\<rparr>;
          numWeights = NumWeights model;
          model = model\<lparr>Weights := replicate numWeights 0\<rparr>
      in case all_internal model sequences of
           Inl p \<Rightarrow> Inl p
         | Inr internals \<Rightarrow>
             (case train_loop (nat (MaxIterations config)) config (NumLabels model) (TransOffset model)
                     internals (Weights model) (newLBFGS numWeights 10) of
                Inl p \<Rightarrow> Inl p
              | Inr w \<Rightarrow> Inr (model\<lparr>Weights := w\<rparr>)))"

subsection \<open>What the line search returns\<close>

lemma owlqnLineSearch_nondescent:
  "dot dir pg \<ge> 0 \<Longrightarrow> owlqnLineSearch w dir fVal pg objFunc n c1 = Inr 0"
  by (simp add: owlqnLineSearch_def)

lemma line_search_loop_step:
  assumes "\<And>x. \<exists>v. objFunc x = Inr v"
  shows "\<exists>k\<le>trials. line_search_loop trials w dir fVal dirDeriv objFunc n c1 step = Inr (step / 2 ^ k)"
proof (induction trials arbitrary: step)
  case 0
  then show ?case by simp
next
  case (Suc trials)
  obtain v where v: "objFunc (trial_point w dir step n c1) = Inr v" using assms by blast
  show ?case
  proof (cases "v \<le> fVal + (1 / 10000) * step * dirDeriv")
    case True
    then show ?thesis using v by (intro exI[of _ 0]) simp
  next
    case False
    obtain k where k: "k \<le> trials"
        "line_search_loop trials w dir fVal dirDeriv objFunc n c1 (step * 0.5) = Inr (step * 0.5 / 2 ^ k)"
      using Suc.IH[of "step * 0.5"] by blast
    show ?thesis
      using False v k by (intro exI[of _ "Suc k"]) simp
  qed
qed

lemma owlqnLineSearch_descent:
  assumes "\<And>x. \<exists>v. objFunc x = Inr v" and "dot dir pg < 0"
  shows "\<exists>k\<le>20. owlqnLineSearch w dir fVal pg objFunc n c1 = Inr (1 / 2 ^ k)"
  using line_search_loop_step[OF assms(1), where trials=20 and step=1 and dirDeriv="dot dir pg"] assms(2)
  by (simp add: owlqnLineSearch_def Let_def)

lemma line_search_loop_all_fail:
  assumes "\<And>x. \<exists>v. objFunc x = Inr v \<and> fVal < v" and "dirDeriv < 0"
  shows "0 < step \<Longrightarrow>
         line_search_loop trials w dir fVal dirDeriv objFunc n c1 step = Inr (step / 2 ^ trials)"
proof (induction trials arbitrary: step)
  case 0
  then show ?case by simp
next
  case (Suc trials)
  obtain v where v: "objFunc (trial_point w dir step n c1) = Inr v" "fVal < v" using assms(1) by blast
  have "step * dirDeriv < 0" using Suc.prems assms(2) by (simp add: mult_pos_neg)
  then have "\<not> v \<le> fVal + (1 / 10000) * step * dirDeriv" using v(2) by simp
  moreover have "0 < step * 0.5" using Suc.prems by simp
  ultimately show ?case using v(1) Suc.IH[of "step * 0.5"] by simp
qed

lemma owlqnLineSearch_all_fail:
  assumes "\<And>x. \<exists>v. objFunc x = Inr v \<and> fVal < v" and "dot dir pg < 0"
  shows "owlqnLineSearch w dir fVal pg objFunc n c1 = Inr (1 / 2 ^ 20)"
  using line_search_loop_all_fail[OF assms(1), where trials=20 and step=1 and dirDeriv="dot dir pg"] assms(2)
  by (simp add: owlqnLineSearch_def Let_def)


text \<open>
  Claim C10 says that a line search in which all 20 trials fail the Armijo condition returns
  the last step it tried, \<open>1 / 2 ^ 19\<close>, as the comment in the source does
  (``return last tried step even if not sufficient decrease''). The loop halves the step once
  more after the last trial, so the value returned is \<open>1 / 2 ^ 20\<close>, a step at which
  the objective was never evaluated (lemma \<open>owlqnLineSearch_all_fail\<close>). Here: one weight
  \<open>w = [0]\<close>, direction \<open>[-1]\<close>, pseudo-gradient \<open>[1]\<close>, and an objective that stays at the
  current value \<open>0\<close>.
\<close>

theorem C10_line_search_returns_untried_step:
  "owlqnLineSearch [0] [- 1] 0 [1] (\<lambda>w. Inr 0) 1 0 = Inr (1 / 2 ^ 20) \<and>
   (1 / 2 ^ 20 :: real) < 1 / 2 ^ 19"
  by (simp add: owlqnLineSearch_def dot_def sum_over_def Let_def eval_nat_numeral)

subsection \<open>Training on no sequences\<close>

lemma Train_empty:
  "Train [] config = Inr \<lparr>Labels = NewAlphabet, Attributes = NewAlphabet, Weights = [], NumLabels = 0\<rparr>"
proof -
  have it: "train_iteration config 0 0 [] [] (newLBFGS 0 10) = Inr (Break [])"
    by (simp add: train_iteration_def objective_and_gradient_def pseudo_gradient_def regularizer_def
        add_l2_gradient_def computeDirection_def newLBFGS_def copy_into_def owlqnLineSearch_def dot_def
        sum_over_def Let_def)
  have "train_loop n config 0 0 [] [] (newLBFGS 0 10) = Inr []" for n
    by (cases n) (simp_all add: it)
  then show ?thesis
    by (simp add: Train_def NewModel_def BuildLabelAlphabet_def BuildAttributeAlphabet_def Size_def
        NewAlphabet_def NumWeights_def TransOffset_def Let_def)
qed


text \<open>
  Claim C4, as amended. \<open>crf.Train\<close> has no error result, and with an empty sequence list it
  does not fail: for every configuration it returns the model with empty label and attribute
  alphabets, no labels and no weights (the first line search, if the loop runs at all,
  returns step \<open>0\<close> and the loop stops).
\<close>

theorem C4_train_empty_returns_model:
  "Train [] config =
     Inr \<lparr>Labels = NewAlphabet, Attributes = NewAlphabet, Weights = [], NumLabels = 0\<rparr>"
  by (rule Train_empty)

text \<open>
  Claim C4, as stated, fails for \<open>crf.Train\<close>: with the default configuration the call on the
  empty list returns a model, the degenerate one, not an error.
\<close>

theorem C4_train_empty_counterexample:
  "Train [] DefaultTrainerConfig =
     Inr \<lparr>Labels = \<lparr>ToID = [], ToStr = []\<rparr>, Attributes = \<lparr>ToID = [], ToStr = []\<rparr>,
          Weights = [], NumLabels = 0\<rparr>"
  using Train_empty[of DefaultTrainerConfig] by (simp add: NewAlphabet_def)

section \<open>vectorizer: sparse vectors (src/internal/vectorizer/sparse.go)\<close>

text \<open>
  Indices, dimensions and counts are Go \<^verbatim>\<open>int\<close>s that are never negative here (positions in
  a sorted vocabulary, lengths, occurrence counts); they are natural numbers in the model.
  A Go \<^verbatim>\<open>map\<close> is an association list with distinct keys, in the order in which the
  source would range over it: \<open>len\<close> is \<^const>\<open>length\<close> and a lookup is \<^const>\<open>map_of\<close>.
\<close>

record SparseVector =
  Indices :: "nat list"
  Values :: "real list"
  Dim :: nat

definition NewSparseVector :: "nat \<Rightarrow> SparseVector" where
  "NewSparseVector n = \<lparr>Indices = [], Values = [], Dim = n\<rparr>"

text \<open>The position of the first entry of a slice equal to \<open>idx\<close>, if there is one.\<close>

fun first_index :: "nat list \<Rightarrow> nat \<Rightarrow> nat option" where
  "first_index [] idx = None"
| "first_index (e # es) idx =
     (if e = idx then Some 0 else map_option Suc (first_index es idx))"

text \<open>\<open>Set\<close>: overwrite the value of the first entry with this index, or append a new entry.\<close>

definition Set_sv :: "SparseVector \<Rightarrow> nat \<Rightarrow> real \<Rightarrow> SparseVector" where
  "Set_sv sv idx val =
     (case first_index (Indices sv) idx of
        Some i \<Rightarrow> sv\<lparr>Values := (Values sv)[i := val]\<rparr>
      | None \<Rightarrow> sv\<lparr>Indices := Indices sv @ [idx], Values := Values sv @ [val]\<rparr>)"


definition ToDense :: "SparseVector \<Rightarrow> real list" where
  "ToDense sv =
     foldl (\<lambda>dense (idx, v). if idx < Dim sv then dense[idx := v] else dense)
       (replicate (Dim sv) 0) (zip (Indices sv) (Values sv))"

definition Nnz :: "SparseVector \<Rightarrow> nat" where
  "Nnz sv = length (Indices sv)"

definition L2Norm :: "SparseVector \<Rightarrow> real" where
  "L2Norm sv = sqrt (sum_list (map (\<lambda>v. v * v) (Values sv)))"

section \<open>vectorizer: DictVectorizer (src/unnamed/part\_005)\<close>

text \<open>The dynamic types of a feature value that \<open>featureKey\<close> and \<open>featureValue\<close> tell apart.\<close>

datatype any = AString string | ABool bool | AInt int | AInt64 int | AFloat64 real | AOther

record DictVectorizer =
  FeatureNames :: "string list"
  FeatureIndex :: "(string \<times> nat) list"

definition NewDictVectorizer :: DictVectorizer where
  "NewDictVectorizer = \<lparr>FeatureNames = [], FeatureIndex = []\<rparr>"

fun featureKey :: "string \<Rightarrow> any \<Rightarrow> string" where
  "featureKey name (AString v) = name @ ''='' @ v"
| "featureKey name v = name"

fun featureValue :: "any \<Rightarrow> real" where
  "featureValue (ABool v) = (if v then 1 else 0)"
| "featureValue (AInt v) = real_of_int v"
| "featureValue (AInt64 v) = real_of_int v"
| "featureValue (AFloat64 v) = v"
| "featureValue (AString v) = 1"
| "featureValue AOther = 1"

text \<open>
  \<open>Fit\<close>: the set of derived keys of all dicts, sorted (\<^verbatim>\<open>sort.Strings\<close>, the bytewise
  lexicographic order), and the index of every name.
\<close>

definition Fit_dict :: "DictVectorizer \<Rightarrow> (string \<times> any) list list \<Rightarrow> DictVectorizer" where
  "Fit_dict dv data =
     (let featureSet = remdups (concat (map (map (\<lambda>(k, v). featureKey k v)) data));
          names = sort featureSet
      in dv\<lparr>FeatureNames := names, FeatureIndex := zip names [0..<length names]\<rparr>)"

definition Transform_dict :: "DictVectorizer \<Rightarrow> (string \<times> any) list \<Rightarrow> SparseVector" where
  "Transform_dict dv d =
     foldl (\<lambda>sv (k, v). case map_of (FeatureIndex dv) (featureKey k v) of
                           Some idx \<Rightarrow> Set_sv sv idx (featureValue v)
                         | None \<Rightarrow> sv)
       (NewSparseVector (length (FeatureNames dv))) d"

definition VocabSize_dict :: "DictVectorizer \<Rightarrow> nat" where
  "VocabSize_dict dv = length (FeatureNames dv)"

subsection \<open>Unknown keys are dropped\<close>

lemma Transform_dict_drops_unknown:
  "Transform_dict dv d =
     Transform_dict dv (filter (\<lambda>(k, v). map_of (FeatureIndex dv) (featureKey k v) \<noteq> None) d)"
proof -
  have "foldl (\<lambda>sv (k, v). case map_of (FeatureIndex dv) (featureKey k v) of
                           Some idx \<Rightarrow> Set_sv sv idx (featureValue v) | None \<Rightarrow> sv) sv0 d
      = foldl (\<lambda>sv (k, v). case map_of (FeatureIndex dv) (featureKey k v) of
                           Some idx \<Rightarrow> Set_sv sv idx (featureValue v) | None \<Rightarrow> sv) sv0
          (filter (\<lambda>(k, v). map_of (FeatureIndex dv) (featureKey k v) \<noteq> None) d)" for sv0
    by (induction d arbitrary: sv0) (auto split: option.splits)
  then show ?thesis by (simp add: Transform_dict_def)
qed

lemma Dim_Set_sv: "Dim (Set_sv sv idx val) = Dim sv"
  by (simp add: Set_sv_def split: option.splits)

lemma Dim_Transform_dict: "Dim (Transform_dict dv d) = VocabSize_dict dv"
proof -
  have "Dim (foldl (\<lambda>sv (k, v). case map_of (FeatureIndex dv) (featureKey k v) of
                           Some idx \<Rightarrow> Set_sv sv idx (featureValue v) | None \<Rightarrow> sv) sv0 d) = Dim sv0" for sv0
    by (induction d arbitrary: sv0) (auto simp: Dim_Set_sv split: option.splits)
  then show ?thesis by (simp add: Transform_dict_def VocabSize_dict_def NewSparseVector_def)
qed

lemma Transform_dict_all_unknown:
  assumes "\<forall>(k, v)\<in>set d. map_of (FeatureIndex dv) (featureKey k v) = None"
  shows "Transform_dict dv d = NewSparseVector (VocabSize_dict dv)"
proof -
  have "filter (\<lambda>(k, v). map_of (FeatureIndex dv) (featureKey k v) \<noteq> None) d = []"
    using assms by (auto simp: filter_empty_conv)
  then show ?thesis
    by (subst Transform_dict_drops_unknown) (simp add: Transform_dict_def VocabSize_dict_def)
qed

text \<open>
  Claim C9. \<open>Transform\<close> of a \<open>DictVectorizer\<close> has no failing step (the model is a total
  function: a lookup that misses and \<open>Set\<close> cannot panic), and for every vectorizer and
  every feature map each entry whose derived key is absent from the vocabulary contributes
  nothing: the result is that of the map without those entries, its dimension is
  \<open>VocabSize()\<close>, and when no key is known it is the empty vector of that dimension.
  The scenario of the specification is an instance: after fitting on
  \<open>[{"method":"post"},{"method":"get"}]\<close>, transforming \<open>{"method":"put"}\<close> yields the vector
  with no entry and dimension \<open>2 = VocabSize()\<close>.
\<close>

theorem C9_dict_transform_drops_unknown:
  "Transform_dict dv d =
     Transform_dict dv (filter (\<lambda>(k, v). map_of (FeatureIndex dv) (featureKey k v) \<noteq> None) d) \<and>
   Dim (Transform_dict dv d) = VocabSize_dict dv \<and>
   ((\<forall>(k, v)\<in>set d. map_of (FeatureIndex dv) (featureKey k v) = None) \<longrightarrow>
      Transform_dict dv d = \<lparr>Indices = [], Values = [], Dim = VocabSize_dict dv\<rparr>)"
proof (intro conjI impI)
  show "Transform_dict dv d =
     Transform_dict dv (filter (\<lambda>(k, v). map_of (FeatureIndex dv) (featureKey k v) \<noteq> None) d)"
    by (rule Transform_dict_drops_unknown)
  show "Dim (Transform_dict dv d) = VocabSize_dict dv"
    by (rule Dim_Transform_dict)
  assume "\<forall>(k, v)\<in>set d. map_of (FeatureIndex dv) (featureKey k v) = None"
  then show "Transform_dict dv d = \<lparr>Indices = [], Values = [], Dim = VocabSize_dict dv\<rparr>"
    by (simp add: Transform_dict_all_unknown NewSparseVector_def)
qed

theorem C9_dict_transform_drops_unknown_witness:
  "VocabSize_dict (Fit_dict NewDictVectorizer
       [[(''method'', AString ''post'')], [(''method'', AString ''get'')]]) = 2 \<and>
   Transform_dict (Fit_dict NewDictVectorizer
       [[(''method'', AString ''post'')], [(''method'', AString ''get'')]]) [(''method'', AString ''put'')]
     = \<lparr>Indices = [], Values = [], Dim = 2\<rparr>"
proof -
  let ?dv = "Fit_dict NewDictVectorizer [[(''method'', AString ''post'')], [(''method'', AString ''get'')]]"
  have v: "VocabSize_dict ?dv = 2"
    by (simp add: VocabSize_dict_def Fit_dict_def NewDictVectorizer_def Let_def)
  have "\<forall>(k, v)\<in>set [(''method'', AString ''put'')]. map_of (FeatureIndex ?dv) (featureKey k v) = None"
    by (simp add: Fit_dict_def NewDictVectorizer_def Let_def)
  with C9_dict_transform_drops_unknown[of ?dv "[(''method'', AString ''put'')]"]
  have "Transform_dict ?dv [(''method'', AString ''put'')] = \<lparr>Indices = [], Values = [], Dim = VocabSize_dict ?dv\<rparr>"
    by blast
  with v show ?thesis by simp
qed

section \<open>textutil: tokens and n-grams (src/internal/textutil/textutil.go)\<close>

text \<open>
  A string is the list of its runes. The Unicode tables of the Go library are not part of
  the repository: the class \<^verbatim>\<open>[\p{L}\p{N}_]\<close> of the token expression and the rune map of
  \<^verbatim>\<open>strings.ToLower\<close> are parameters of the model.
\<close>

record unicode_tables =
  is_word_rune :: "char \<Rightarrow> bool"
  to_lower_rune :: "char \<Rightarrow> char"

text \<open>The tables restricted to ASCII, for evaluating examples.\<close>

definition ascii_tables :: unicode_tables where
  "ascii_tables =
     \<lparr>is_word_rune = (\<lambda>c. (CHR ''a'' \<le> c \<and> c \<le> CHR ''z'') \<or> (CHR ''A'' \<le> c \<and> c \<le> CHR ''Z'') \<or>
                            (CHR ''0'' \<le> c \<and> c \<le> CHR ''9'') \<or> c = CHR ''_''),
      to_lower_rune = (\<lambda>c. if CHR ''A'' \<le> c \<and> c \<le> CHR ''Z'' then char_of (of_char c + (32::nat)) else c)\<rparr>"

text \<open>\<open>FindAllString\<close> of \<^verbatim>\<open>[\p{L}\p{N}_]+\<close>: the maximal runs of word runes, left to right.\<close>

fun token_scan :: "(char \<Rightarrow> bool) \<Rightarrow> string \<Rightarrow> string \<Rightarrow> string list" where
  "token_scan w cur [] = (if cur = [] then [] else [cur])"
| "token_scan w cur (c # cs) =
     (if w c then token_scan w (cur @ [c]) cs
      else (if cur = [] then [] else [cur]) @ token_scan w [] cs)"

definition Tokenize :: "unicode_tables \<Rightarrow> string \<Rightarrow> string list" where
  "Tokenize u text = token_scan (is_word_rune u) [] text"

text \<open>
  \<^verbatim>\<open>for n := minN; n <= maxN && n <= textLen; n++ { for i := 0; i <= textLen-n; i++ { ... } }\<close>:
  the windows \<open>xs[i:i+n]\<close>, by increasing width and position.
\<close>

definition windows :: "'a list \<Rightarrow> nat \<Rightarrow> nat \<Rightarrow> 'a list list" where
  "windows xs minN maxN =
     concat (map (\<lambda>n. map (\<lambda>i. take n (drop i xs)) [0..<Suc (length xs - n)])
                 [minN..<Suc (min maxN (length xs))])"

definition Ngrams :: "string \<Rightarrow> nat \<Rightarrow> nat \<Rightarrow> string list" where
  "Ngrams s minN maxN = windows s minN maxN"

text \<open>\<^verbatim>\<open>strings.Join(tokens, " ")\<close>.\<close>

fun join_space :: "string list \<Rightarrow> string" where
  "join_space [] = []"
| "join_space [t] = t"
| "join_space (t # ts) = t @ '' '' @ join_space ts"

definition TokenNgrams :: "string list \<Rightarrow> nat \<Rightarrow> nat \<Rightarrow> string list" where
  "TokenNgrams tokens minN maxN = map join_space (windows tokens minN maxN)"

section \<open>vectorizer: CountVectorizer (src/internal/vectorizer/count.go)\<close>

record CountVectorizer =
  Vocabulary :: "(string \<times> nat) list"
  NgramRange :: "nat \<times> nat"
  Binary :: bool
  Analyzer :: string
  MinDF :: int

definition NewCountVectorizer :: "nat \<times> nat \<Rightarrow> bool \<Rightarrow> string \<Rightarrow> int \<Rightarrow> CountVectorizer" where
  "NewCountVectorizer ngramRange binary analyzer minDF =
     \<lparr>Vocabulary = [], NgramRange = ngramRange, Binary = binary,
      Analyzer = (if analyzer = '''' then ''word'' else analyzer),
      MinDF = (if minDF < 1 then 1 else minDF)\<rparr>"

definition charWbNgrams :: "unicode_tables \<Rightarrow> string \<Rightarrow> nat \<Rightarrow> nat \<Rightarrow> string list" where
  "charWbNgrams u text minN maxN =
     concat (map (\<lambda>token. Ngrams ('' '' @ token @ '' '') minN maxN) (Tokenize u text))"

definition analyze :: "unicode_tables \<Rightarrow> CountVectorizer \<Rightarrow> string \<Rightarrow> string list" where
  "analyze u cv text =
     (let text = map (to_lower_rune u) text in
      if Analyzer cv = ''char_wb''
      then charWbNgrams u text (fst (NgramRange cv)) (snd (NgramRange cv))
      else TokenNgrams (Tokenize u text) (fst (NgramRange cv)) (snd (NgramRange cv)))"

text \<open>\<open>m[k]++\<close> on a counting map: a missing key starts at the zero value.\<close>

fun bump :: "('k \<times> 'v::{one,plus}) list \<Rightarrow> 'k \<Rightarrow> ('k \<times> 'v) list" where
  "bump [] k = [(k, 1)]"
| "bump ((k', c) # m) k = (if k' = k then (k', c + 1) # m else (k', c) # bump m k)"

text \<open>
  The inner loop of \<open>Fit\<close> over the features of one document: a feature counts once per
  document (\<open>seen\<close>).
\<close>

fun count_document :: "(string \<times> int) list \<Rightarrow> string list \<Rightarrow> string list \<Rightarrow> (string \<times> int) list" where
  "count_document dfCounts seen [] = dfCounts"
| "count_document dfCounts seen (f # fs) =
     (if f \<in> set seen then count_document dfCounts seen fs
      else count_document (bump dfCounts f) (f # seen) fs)"

definition Fit_count :: "unicode_tables \<Rightarrow> CountVectorizer \<Rightarrow> string list \<Rightarrow> CountVectorizer" where
  "Fit_count u cv corpus =
     (let dfCounts = foldl (\<lambda>m doc. count_document m [] (analyze u cv doc)) [] corpus;
          terms = sort (map fst (filter (\<lambda>(term, count). count \<ge> MinDF cv) dfCounts))
      in cv\<lparr>Vocabulary := zip terms [0..<length terms]\<rparr>)"

definition Transform_count :: "unicode_tables \<Rightarrow> CountVectorizer \<Rightarrow> string \<Rightarrow> SparseVector" where
  "Transform_count u cv text =
     (let counts = foldl (\<lambda>m f. case map_of (Vocabulary cv) f of Some idx \<Rightarrow> bump m idx | None \<Rightarrow> m)
                     ([] :: (nat \<times> real) list) (analyze u cv text)
      in foldl (\<lambda>sv (idx, count). if Binary cv then Set_sv sv idx 1 else Set_sv sv idx count)
           (NewSparseVector (length (Vocabulary cv))) counts)"

definition VocabSize_count :: "CountVectorizer \<Rightarrow> nat" where
  "VocabSize_count cv = length (Vocabulary cv)"

section \<open>vectorizer: TfidfVectorizer (src/internal/vectorizer/tfidf.go)\<close>

record TfidfVectorizer =
  CountVec :: CountVectorizer
  IDF :: "real list"
  StopWords :: "(string \<times> bool) list"

definition NewTfidfVectorizer ::
    "nat \<times> nat \<Rightarrow> int \<Rightarrow> bool \<Rightarrow> string \<Rightarrow> (string \<times> bool) list \<Rightarrow> TfidfVectorizer" where
  "NewTfidfVectorizer ngramRange minDF binary analyzer stopWords =
     \<lparr>CountVec = NewCountVectorizer ngramRange binary analyzer minDF, IDF = [], StopWords = stopWords\<rparr>"

text \<open>\<open>filterText\<close> returns its argument on both of its paths.\<close>

definition filterText :: "TfidfVectorizer \<Rightarrow> string \<Rightarrow> string" where
  "filterText tv text =
     (if length (StopWords tv) = 0 \<or> Analyzer (CountVec tv) = ''char_wb'' then text else text)"

definition filterCorpus :: "TfidfVectorizer \<Rightarrow> string list \<Rightarrow> string list" where
  "filterCorpus tv corpus =
     (if length (StopWords tv) = 0 then corpus
      else if Analyzer (CountVec tv) = ''char_wb'' then corpus
      else map (filterText tv) corpus)"

definition Fit_tfidf :: "unicode_tables \<Rightarrow> TfidfVectorizer \<Rightarrow> string list \<Rightarrow> TfidfVectorizer" where
  "Fit_tfidf u tv corpus =
     (let filtered = filterCorpus tv corpus;
          cv = Fit_count u (CountVec tv) filtered;
          nDocs = real (length filtered);
          vocabSize = VocabSize_count cv;
          df = foldl (\<lambda>df doc. foldl (\<lambda>df idx. df[idx := df ! idx + 1]) df
                                  (Indices (Transform_count u cv doc)))
                 (replicate vocabSize (0::real)) filtered
      in tv\<lparr>CountVec := cv, IDF := map (\<lambda>i. ln ((1 + nDocs) / (1 + df ! i)) + 1) [0..<vocabSize]\<rparr>)"

text \<open>The two loops of \<open>Transform\<close>: the IDF weights, then the L2 normalisation.\<close>

definition apply_idf :: "real list \<Rightarrow> SparseVector \<Rightarrow> SparseVector" where
  "apply_idf idf sv =
     sv\<lparr>Values := map (\<lambda>(idx, v). if idx < length idf then v * idf ! idx else v)
                      (zip (Indices sv) (Values sv))\<rparr>"

definition l2_normalize :: "SparseVector \<Rightarrow> SparseVector" where
  "l2_normalize sv =
     (let norm = L2Norm sv
      in if norm > 0 then sv\<lparr>Values := map (\<lambda>v. v / norm) (Values sv)\<rparr> else sv)"

definition Transform_tfidf :: "unicode_tables \<Rightarrow> TfidfVectorizer \<Rightarrow> string \<Rightarrow> SparseVector" where
  "Transform_tfidf u tv text =
     (let filtered = filterText tv text;
          sv = Transform_count u (CountVec tv) filtered
      in l2_normalize (apply_idf (IDF tv) sv))"

definition VocabSize_tfidf :: "TfidfVectorizer \<Rightarrow> nat" where
  "VocabSize_tfidf tv = VocabSize_count (CountVec tv)"

subsection \<open>The stop-word set has no effect\<close>

lemma filterText_id: "filterText tv text = text"
  by (simp add: filterText_def)

lemma filterCorpus_id: "filterCorpus tv corpus = corpus"
proof -
  have "map (filterText tv) corpus = corpus"
    by (rule map_idI) (rule filterText_id)
  then show ?thesis by (simp add: filterCorpus_def)
qed

lemma Fit_tfidf_StopWords:
  "Fit_tfidf u (tv\<lparr>StopWords := sw\<rparr>) corpus = (Fit_tfidf u (tv\<lparr>StopWords := []\<rparr>) corpus)\<lparr>StopWords := sw\<rparr>"
  by (simp add: Fit_tfidf_def filterCorpus_id Let_def)

lemma Transform_tfidf_StopWords:
  "Transform_tfidf u (tv\<lparr>StopWords := sw\<rparr>) text = Transform_tfidf u (tv\<lparr>StopWords := []\<rparr>) text"
  by (simp add: Transform_tfidf_def filterText_id Let_def)

text \<open>
  So the stop-word set has no effect on \<open>Fit\<close> or \<open>Transform\<close>, under either analyzer: the
  fitted state and the output vector are those of the same vectorizer with no stop words.
\<close>

lemma Tfidf_stop_words_ignored:
  "Fit_tfidf u (tv\<lparr>StopWords := sw\<rparr>) corpus = (Fit_tfidf u (tv\<lparr>StopWords := []\<rparr>) corpus)\<lparr>StopWords := sw\<rparr> \<and>
   Transform_tfidf u (tv\<lparr>StopWords := sw\<rparr>) text = Transform_tfidf u (tv\<lparr>StopWords := []\<rparr>) text"
  by (rule conjI[OF Fit_tfidf_StopWords Transform_tfidf_StopWords])

text \<open>
  Claim C5 says that under the word analyzer the stop words are removed during \<open>Fit\<close> and
  \<open>Transform\<close>, so that a stop word contributes no vocabulary term and no vector entry, while
  under \<open>char_wb\<close> nothing is removed; the comments of \<open>Fit\<close>, \<open>filterCorpus\<close> and
  \<open>filterText\<close> say the same (``for word analyzer, we filter tokens''). The code removes
  nothing under the word analyzer either. Here: the stop-word set \<open>{"the"}\<close>, the word
  analyzer and the corpus \<open>["the fox"]\<close>; the stop word becomes the vocabulary term of column
  \<open>1\<close>, and transforming \<open>"the"\<close> yields a vector entry in that column.
\<close>

theorem C5_stop_word_kept_by_word_analyzer:
  "map_of (Vocabulary (CountVec (Fit_tfidf ascii_tables
      (NewTfidfVectorizer (1, 1) 1 True ''word'' [(''the'', True)]) [''the fox''])))
     ''the'' = Some 1 \<and>
   Indices (Transform_tfidf ascii_tables (Fit_tfidf ascii_tables
      (NewTfidfVectorizer (1, 1) 1 True ''word'' [(''the'', True)]) [''the fox'']) ''the'') = [1]"
proof -
  define tv where "tv = Fit_tfidf ascii_tables (NewTfidfVectorizer (1, 1) 1 True ''word'' [(''the'', True)]) [''the fox'']"
  have voc: "Vocabulary (CountVec tv) = [(''fox'', 0), (''the'', 1)]"
    unfolding tv_def
    by (simp add: Fit_tfidf_def filterCorpus_id Fit_count_def NewTfidfVectorizer_def NewCountVectorizer_def
        analyze_def Tokenize_def TokenNgrams_def windows_def ascii_tables_def Let_def)
  have cfg: "Analyzer (CountVec tv) = ''word''" "NgramRange (CountVec tv) = (1, 1)" "Binary (CountVec tv)"
    unfolding tv_def
    by (simp_all add: Fit_tfidf_def Fit_count_def NewTfidfVectorizer_def NewCountVectorizer_def Let_def)
  have an: "analyze ascii_tables (CountVec tv) ''the'' = [''the'']"
    by (simp add: analyze_def cfg Tokenize_def TokenNgrams_def windows_def ascii_tables_def Let_def)
  have "Indices (Transform_tfidf ascii_tables tv ''the'') = [1]"
    by (simp add: Transform_tfidf_def filterText_id Transform_count_def an voc cfg l2_normalize_def
        apply_idf_def NewSparseVector_def Set_sv_def Let_def)
  with voc show ?thesis unfolding tv_def by simp
qed

subsection \<open>TF-IDF vectors are normalised\<close>

lemma sum_squares_nonneg: "0 \<le> sum_list (map (\<lambda>v. v * v) vs)" for vs :: "real list"
  by (induction vs) auto

lemma sum_squares_zero: "sum_list (map (\<lambda>v. v * v) vs) = 0 \<Longrightarrow> \<forall>v\<in>set vs. v = 0"
  for vs :: "real list"
proof (induction vs)
  case Nil
  then show ?case by simp
next
  case (Cons a vs)
  have "0 \<le> a * a" by simp
  moreover have "0 \<le> sum_list (map (\<lambda>v. v * v) vs)" by (rule sum_squares_nonneg)
  ultimately have "a * a = 0" and "sum_list (map (\<lambda>v. v * v) vs) = 0"
    using Cons.prems by (simp_all add: add_nonneg_eq_0_iff)
  then show ?case using Cons.IH by simp
qed

lemma l2_normalize_unit:
  "L2Norm (l2_normalize sv) = 1 \<or> (l2_normalize sv = sv \<and> (\<forall>v\<in>set (Values sv). v = 0))"
proof (cases "L2Norm sv > 0")
  case True
  define S where "S = sum_list (map (\<lambda>v. v * v) (Values sv))"
  have n: "L2Norm sv = sqrt S" by (simp add: L2Norm_def S_def)
  have S: "0 < S" using True n by simp
  have "sum_list (map (\<lambda>v. v * v) (map (\<lambda>v. v / sqrt S) (Values sv)))
      = sum_list (map (\<lambda>v. (v * v) * (1 / S)) (Values sv))"
    using S by (simp add: comp_def field_simps)
  also have "\<dots> = S * (1 / S)"
    unfolding S_def by (rule sum_list_mult_const)
  also have "\<dots> = 1" using S by simp
  finally have "L2Norm (l2_normalize sv) = 1"
    using True by (simp add: l2_normalize_def Let_def L2Norm_def S_def[symmetric])
  then show ?thesis ..
next
  case False
  have "0 \<le> sum_list (map (\<lambda>v. v * v) (Values sv))" by (rule sum_squares_nonneg)
  with False have "sum_list (map (\<lambda>v. v * v) (Values sv)) = 0"
    by (simp add: L2Norm_def not_less)
  then have "\<forall>v\<in>set (Values sv). v = 0" by (rule sum_squares_zero)
  with False show ?thesis by (simp add: l2_normalize_def Let_def)
qed

text \<open>
  Claim C6. For every \<open>TfidfVectorizer\<close> state (fitted or loaded) and every document, the vector
  returned by \<open>Transform\<close> either has L2 norm \<open>1\<close> (exactly, over the reals), or it is the
  weighted count vector returned unchanged, without any division, and all its values are \<open>0\<close>.
\<close>

theorem C6_tfidf_unit_norm:
  "L2Norm (Transform_tfidf u tv text) = 1 \<or>
   (Transform_tfidf u tv text = apply_idf (IDF tv) (Transform_count u (CountVec tv) text) \<and>
    (\<forall>v\<in>set (Values (Transform_tfidf u tv text)). v = 0))"
proof -
  let ?sv = "apply_idf (IDF tv) (Transform_count u (CountVec tv) text)"
  have t: "Transform_tfidf u tv text = l2_normalize ?sv"
    by (simp add: Transform_tfidf_def filterText_id Let_def)
  from l2_normalize_unit[of ?sv] show ?thesis
    unfolding t by auto
qed

theorem C6_tfidf_unit_norm_witness:
  "L2Norm (Transform_tfidf ascii_tables
      \<lparr>CountVec = \<lparr>Vocabulary = [(''fox'', 0), (''the'', 1)], NgramRange = (1, 1), Binary = True,
                   Analyzer = ''word'', MinDF = 1\<rparr>,
       IDF = [1, 1], StopWords = []\<rparr> ''the'') = 1"
proof -
  define cv where "cv = \<lparr>Vocabulary = [(''fox'', 0), (''the'', 1)], NgramRange = (1, 1), Binary = True,
                   Analyzer = ''word'', MinDF = 1\<rparr>"
  define tv where "tv = \<lparr>CountVec = cv, IDF = [1, 1], StopWords = []\<rparr>"
  have an: "analyze ascii_tables cv ''the'' = [''the'']"
    by (simp add: analyze_def cv_def Tokenize_def TokenNgrams_def windows_def ascii_tables_def Let_def)
  have cnt: "Transform_count ascii_tables cv ''the'' = \<lparr>Indices = [1], Values = [1], Dim = 2\<rparr>"
    by (simp add: Transform_count_def an Let_def) (simp add: cv_def NewSparseVector_def Set_sv_def)
  have "Values (apply_idf (IDF tv) (Transform_count ascii_tables (CountVec tv) ''the'')) = [1]"
    by (simp add: apply_idf_def cnt tv_def)
  then have nz: "\<not> (\<forall>v\<in>set (Values (apply_idf (IDF tv) (Transform_count ascii_tables (CountVec tv) ''the''))). v = 0)"
    by simp
  have "L2Norm (Transform_tfidf ascii_tables tv ''the'') = 1"
    using C6_tfidf_unit_norm[of ascii_tables tv "''the''"] nz by metis
  then show ?thesis unfolding tv_def cv_def .
qed

subsection \<open>The fitted vocabulary\<close>

text \<open>The specification's terms: document frequency and the analysed terms that reach \<open>minDF\<close>.\<close>

definition doc_freq :: "unicode_tables \<Rightarrow> CountVectorizer \<Rightarrow> string list \<Rightarrow> string \<Rightarrow> nat" where
  "doc_freq u cv corpus term = length (filter (\<lambda>doc. term \<in> set (analyze u cv doc)) corpus)"

definition frequent_terms :: "unicode_tables \<Rightarrow> CountVectorizer \<Rightarrow> string list \<Rightarrow> string set" where
  "frequent_terms u cv corpus =
     {term \<in> (\<Union>doc\<in>set corpus. set (analyze u cv doc)). MinDF cv \<le> int (doc_freq u cv corpus term)}"

definition count_of :: "(string \<times> int) list \<Rightarrow> string \<Rightarrow> int" where
  "count_of m k = (case map_of m k of None \<Rightarrow> 0 | Some c \<Rightarrow> c)"

lemma keys_bump_map: "set (map fst (bump m k)) = insert k (set (map fst m))"
proof (induction m)
  case Nil
  then show ?case by simp
next
  case (Cons a m)
  obtain k' c where a: "a = (k', c)" by (cases a)
  show ?case
  proof (cases "k' = k")
    case True
    then show ?thesis by (simp add: a)
  next
    case False
    then show ?thesis using Cons.IH by (simp add: a insert_commute)
  qed
qed

lemma keys_bump: "fst ` set (bump m k) = insert k (fst ` set m)"
  using keys_bump_map[of m k] by simp

lemma distinct_bump: "distinct (map fst m) \<Longrightarrow> distinct (map fst (bump m k))"
proof (induction m)
  case Nil
  then show ?case by simp
next
  case (Cons a m)
  obtain k' c where a: "a = (k', c)" by (cases a)
  show ?case using Cons keys_bump[of m k] by (auto simp: a)
qed

lemma count_of_bump:
  "count_of (bump m k) g = count_of m g + (if g = k then 1 else 0)"
  by (induction m) (auto simp: count_of_def)

lemma count_document_props:
  "distinct (map fst m) \<Longrightarrow>
     distinct (map fst (count_document m seen fs)) \<and>
     fst ` set (count_document m seen fs) = fst ` set m \<union> (set fs - set seen) \<and>
     (\<forall>g. count_of (count_document m seen fs) g
            = count_of m g + (if g \<in> set fs - set seen then 1 else 0))"
proof (induction fs arbitrary: m seen)
  case Nil
  then show ?case by simp
next
  case (Cons f fs)
  show ?case
  proof (cases "f \<in> set seen")
    case True
    then show ?thesis using Cons.IH[OF Cons.prems, of seen] by auto
  next
    case False
    have d: "distinct (map fst (bump m f))" by (rule distinct_bump[OF Cons.prems])
    from Cons.IH[OF d, of "f # seen"] False
    show ?thesis by (auto simp: keys_bump count_of_bump)
  qed
qed

definition df_fold :: "unicode_tables \<Rightarrow> CountVectorizer \<Rightarrow> (string \<times> int) list \<Rightarrow> string list \<Rightarrow> (string \<times> int) list" where
  "df_fold u cv m corpus = foldl (\<lambda>m doc. count_document m [] (analyze u cv doc)) m corpus"

lemma df_fold_props:
  "distinct (map fst m) \<Longrightarrow>
     distinct (map fst (df_fold u cv m corpus)) \<and>
     fst ` set (df_fold u cv m corpus) = fst ` set m \<union> (\<Union>doc\<in>set corpus. set (analyze u cv doc)) \<and>
     (\<forall>g. count_of (df_fold u cv m corpus) g = count_of m g + int (doc_freq u cv corpus g))"
proof (induction corpus arbitrary: m)
  case Nil
  then show ?case by (simp add: df_fold_def doc_freq_def)
next
  case (Cons doc corpus)
  let ?m' = "count_document m [] (analyze u cv doc)"
  from count_document_props[OF Cons.prems, of "[]" "analyze u cv doc"]
  have d: "distinct (map fst ?m')"
    and k: "fst ` set ?m' = fst ` set m \<union> set (analyze u cv doc)"
    and c: "\<And>g. count_of ?m' g = count_of m g + (if g \<in> set (analyze u cv doc) then 1 else 0)"
    by auto
  have unf: "df_fold u cv m (doc # corpus) = df_fold u cv ?m' corpus"
    by (simp add: df_fold_def)
  from Cons.IH[OF d]
  have d2: "distinct (map fst (df_fold u cv ?m' corpus))"
    and k2: "fst ` set (df_fold u cv ?m' corpus) = fst ` set ?m' \<union> (\<Union>doc\<in>set corpus. set (analyze u cv doc))"
    and c2: "\<And>g. count_of (df_fold u cv ?m' corpus) g = count_of ?m' g + int (doc_freq u cv corpus g)"
    by auto
  have c3: "count_of (df_fold u cv ?m' corpus) g = count_of m g + int (doc_freq u cv (doc # corpus) g)" for g
    unfolding c2 c by (simp add: doc_freq_def)
  show ?case
    unfolding unf using d2 k2 k c3 by auto
qed

lemma frequent_keys:
  assumes d: "distinct (map fst m)"
    and k: "fst ` set m = (\<Union>doc\<in>set corpus. set (analyze u cv doc))"
    and c: "\<And>g. count_of m g = int (doc_freq u cv corpus g)"
  shows "set (map fst (filter (\<lambda>(term, count). count \<ge> MinDF cv) m)) = frequent_terms u cv corpus"
proof (intro set_eqI iffI)
  fix g assume "g \<in> set (map fst (filter (\<lambda>(term, count). count \<ge> MinDF cv) m))"
  then obtain cnt where m: "(g, cnt) \<in> set m" "MinDF cv \<le> cnt" by auto
  then have "map_of m g = Some cnt" using d by simp
  then have "count_of m g = cnt" by (simp add: count_of_def)
  then have "MinDF cv \<le> int (doc_freq u cv corpus g)" using m(2) c by simp
  moreover have "g \<in> (\<Union>doc\<in>set corpus. set (analyze u cv doc))"
  proof -
    have "fst (g, cnt) \<in> fst ` set m" using m(1) by (rule imageI)
    then show ?thesis using k by simp
  qed
  ultimately show "g \<in> frequent_terms u cv corpus" by (simp add: frequent_terms_def)
next
  fix g assume g: "g \<in> frequent_terms u cv corpus"
  then have "g \<in> fst ` set m" using k by (simp add: frequent_terms_def)
  then obtain cnt where m: "(g, cnt) \<in> set m" by auto
  then have "map_of m g = Some cnt" using d by simp
  then have "count_of m g = cnt" by (simp add: count_of_def)
  then have "MinDF cv \<le> cnt" using g c by (simp add: frequent_terms_def)
  then have "(g, cnt) \<in> set (filter (\<lambda>(term, count). count \<ge> MinDF cv) m)"
    using m by simp
  then have "fst (g, cnt) \<in> fst ` set (filter (\<lambda>(term, count). count \<ge> MinDF cv) m)"
    by (rule imageI)
  then show "g \<in> set (map fst (filter (\<lambda>(term, count). count \<ge> MinDF cv) m))"
    by simp
qed

lemma distinct_filter_keys:
  "distinct (map fst m) \<Longrightarrow> distinct (map fst (filter P m))"
  by (simp add: distinct_map_filter)

lemma sort_distinct_eq: "distinct xs \<Longrightarrow> sort xs = sorted_list_of_set (set xs)"
  for xs :: "string list"
  by (simp add: sorted_list_of_set_sort_remdups distinct_remdups_id)

lemma finite_frequent_terms: "finite (frequent_terms u cv corpus)"
  by (simp add: frequent_terms_def)

lemma Fit_count_Vocabulary:
  "Vocabulary (Fit_count u cv corpus) =
     zip (sorted_list_of_set (frequent_terms u cv corpus)) [0..<card (frequent_terms u cv corpus)]"
proof -
  define m where "m = df_fold u cv [] corpus"
  from df_fold_props[of "[]" u cv corpus]
  have d: "distinct (map fst m)"
    and k: "fst ` set m = (\<Union>doc\<in>set corpus. set (analyze u cv doc))"
    and c: "\<And>g. count_of m g = int (doc_freq u cv corpus g)"
    by (auto simp: m_def count_of_def)
  define terms where "terms = map fst (filter (\<lambda>(term, count). count \<ge> MinDF cv) m)"
  have dt: "distinct terms" unfolding terms_def by (rule distinct_filter_keys[OF d])
  have st: "set terms = frequent_terms u cv corpus"
    unfolding terms_def by (rule frequent_keys[OF d k c])
  have srt: "sort terms = sorted_list_of_set (frequent_terms u cv corpus)"
    using sort_distinct_eq[OF dt] st by simp
  have len: "length terms = card (frequent_terms u cv corpus)"
    using dt st by (metis distinct_card)
  have "Vocabulary (Fit_count u cv corpus) = zip (sort terms) [0..<length (sort terms)]"
    by (simp add: Fit_count_def Let_def terms_def m_def df_fold_def)
  then show ?thesis using srt len by simp
qed

lemma frequent_terms_mset:
  assumes "mset corpus' = mset corpus"
  shows "frequent_terms u cv corpus' = frequent_terms u cv corpus"
proof -
  have s: "set corpus' = set corpus" using assms by (rule mset_eq_setD)
  have "doc_freq u cv corpus' g = doc_freq u cv corpus g" for g
  proof -
    have "mset (filter (\<lambda>doc. g \<in> set (analyze u cv doc)) corpus')
        = mset (filter (\<lambda>doc. g \<in> set (analyze u cv doc)) corpus)"
      using assms by (simp only: mset_filter)
    then show ?thesis unfolding doc_freq_def by (rule mset_eq_length)
  qed
  then show ?thesis by (simp add: frequent_terms_def s)
qed

text \<open>
  Claim C7. For every corpus, after \<open>Fit\<close> the vocabulary maps exactly the distinct analysed
  n-grams whose document frequency is at least \<open>minDF\<close>, \<open>VocabSize()\<close> is their number, the
  column of a term is its rank in the lexicographic order (so the columns are exactly
  \<open>0, \<dots>, VocabSize() - 1\<close>), and the vocabulary does not depend on the order of the corpus.
\<close>

theorem C7_fit_vocabulary:
  "dom (map_of (Vocabulary (Fit_count u cv corpus))) = frequent_terms u cv corpus \<and>
   VocabSize_count (Fit_count u cv corpus) = card (frequent_terms u cv corpus) \<and>
   Vocabulary (Fit_count u cv corpus) =
     zip (sorted_list_of_set (frequent_terms u cv corpus)) [0..<card (frequent_terms u cv corpus)] \<and>
   (\<forall>i<card (frequent_terms u cv corpus).
      map_of (Vocabulary (Fit_count u cv corpus)) (sorted_list_of_set (frequent_terms u cv corpus) ! i) = Some i) \<and>
   (mset corpus' = mset corpus \<longrightarrow>
      Vocabulary (Fit_count u cv corpus') = Vocabulary (Fit_count u cv corpus))"
proof -
  let ?F = "frequent_terms u cv corpus"
  let ?terms = "sorted_list_of_set ?F"
  have fin: "finite ?F" by (rule finite_frequent_terms)
  have len: "length ?terms = card ?F" by simp
  have voc: "Vocabulary (Fit_count u cv corpus) = zip ?terms [0..<card ?F]"
    by (rule Fit_count_Vocabulary)
  have dom: "dom (map_of (Vocabulary (Fit_count u cv corpus))) = ?F"
    unfolding voc using fin by (simp add: dom_map_of_zip)
  have size: "VocabSize_count (Fit_count u cv corpus) = card ?F"
    unfolding VocabSize_count_def voc by simp
  have rank: "map_of (Vocabulary (Fit_count u cv corpus)) (?terms ! i) = Some i" if "i < card ?F" for i
  proof -
    have "map_of (zip ?terms [0..<card ?F]) (?terms ! i) = Some ([0..<card ?F] ! i)"
      using that by (intro map_of_zip_nth) simp_all
    then show ?thesis using that by (simp add: voc)
  qed
  have perm: "Vocabulary (Fit_count u cv corpus') = Vocabulary (Fit_count u cv corpus)"
    if "mset corpus' = mset corpus"
    by (simp add: Fit_count_Vocabulary frequent_terms_mset[OF that])
  show ?thesis using dom size voc rank perm by blast
qed

theorem C7_fit_vocabulary_witness:
  "Vocabulary (Fit_count ascii_tables (NewCountVectorizer (1, 1) True ''word'' 2) [''b a'', ''a''])
     = Vocabulary (Fit_count ascii_tables (NewCountVectorizer (1, 1) True ''word'' 2) [''a'', ''b a''])"
proof -
  have "mset [''b a'', ''a''] = mset [''a'', ''b a'']" by (simp add: add.commute)
  with C7_fit_vocabulary[of ascii_tables "NewCountVectorizer (1, 1) True ''word'' 2" "[''a'', ''b a'']" "[''b a'', ''a'']"]
  show ?thesis by blast
qed

section \<open>classifier: the logistic-regression objective (src/classifier/formtype.go)\<close>

text \<open>\<open>softmax\<close>, stabilised by the maximum logit. It reads \<open>logits[0]\<close>.\<close>

definition softmax :: "real list \<Rightarrow> real list" where
  "softmax logits =
     (let maxLogit = foldl (\<lambda>m l. if l > m then l else m) (logits ! 0) (tl logits);
          probs = map (\<lambda>l. exp (l - maxLogit)) logits;
          total = sum_list probs
      in map (\<lambda>p. p / total) probs)"







subsection \<open>The objective and its gradient in closed form\<close>

text \<open>The value a sparse vector holds in column \<open>i\<close>: that of its first entry with index \<open>i\<close>.\<close>

definition entry :: "nat list \<Rightarrow> real list \<Rightarrow> nat \<Rightarrow> real" where
  "entry is vs i = (case first_index is i of Some vi \<Rightarrow> vs ! vi | None \<Rightarrow> 0)"

definition component :: "SparseVector \<Rightarrow> nat \<Rightarrow> real" where
  "component x i = entry (Indices x) (Values x) i"

text \<open>The invariant of sparse vectors of dimension \<open>D\<close>.\<close>

definition wf_sparse :: "nat \<Rightarrow> SparseVector \<Rightarrow> bool" where
  "wf_sparse D x \<longleftrightarrow>
     length (Values x) = length (Indices x) \<and> distinct (Indices x) \<and> list_all (\<lambda>idx. idx < D) (Indices x)"

lemma first_index_None: "first_index is i = None \<longleftrightarrow> i \<notin> set is"
  by (induction "is") auto

lemma entry_Cons: "entry (a # is) (v # vs) i = (if a = i then v else entry is vs i)"
  by (cases "first_index is i") (simp_all add: entry_def)

lemma entry_absent: "i \<notin> set is \<Longrightarrow> entry is vs i = 0"
  by (simp add: entry_def first_index_None[THEN iffD2])



text \<open>On a well-formed vector this is the component of the dense vector \<open>ToDense()\<close>.\<close>

lemma ToDense_fold:
  "length vs = length is \<Longrightarrow> distinct is \<Longrightarrow> \<forall>idx\<in>set is. idx < length dense \<Longrightarrow> length dense = D \<Longrightarrow>
   i < D \<Longrightarrow>
   foldl (\<lambda>dense (idx, v). if idx < D then dense[idx := v] else dense) dense (zip is vs) ! i
     = (if i \<in> set is then entry is vs i else dense ! i)"
proof (induction "is" arbitrary: vs dense)
  case Nil
  then show ?case by simp
next
  case (Cons a "is")
  then obtain v vs' where vs: "vs = v # vs'" "length vs' = length is" by (cases vs) auto
  have a: "a < D" "a \<notin> set is" using Cons.prems by auto
  have ih: "foldl (\<lambda>dense (idx, v). if idx < D then dense[idx := v] else dense) (dense[a := v]) (zip is vs') ! i
      = (if i \<in> set is then entry is vs' i else dense[a := v] ! i)"
    using Cons.prems by (intro Cons.IH[OF vs(2)]) auto
  show ?case
    using a ih Cons.prems(4,5) by (auto simp: vs entry_Cons)
qed

lemma ToDense_component:
  assumes "wf_sparse (Dim x) x" and "i < Dim x"
  shows "ToDense x ! i = component x i"
proof -
  have "\<forall>idx\<in>set (Indices x). idx < length (replicate (Dim x) (0::real))"
    using assms(1) by (simp add: wf_sparse_def list_all_iff)
  then have "ToDense x ! i = (if i \<in> set (Indices x) then entry (Indices x) (Values x) i
                             else replicate (Dim x) 0 ! i)"
    unfolding ToDense_def using assms by (intro ToDense_fold) (simp_all add: wf_sparse_def)
  then show ?thesis using assms(2) by (simp add: component_def entry_absent)
qed





lemma length_softmax: "length (softmax logits) = length logits"
  by (simp add: softmax_def Let_def)






































end
